theory Spec2Isabelle
  imports Main "HOL-Library.Sublist"
begin

section \<open>Python values\<close>

text \<open>
  The values that flow through \<^verbatim>\<open>monai/apps/mmars/mmars.py\<close>: the content of a
  deserialised weights file and of a JSON configuration file. A Python \<^verbatim>\<open>dict\<close> keeps
  its entries in insertion order and its keys are unique, so a mapping is an association
  list with string keys, read with \<open>map_of\<close>. \<open>VObj\<close> is an opaque object (a tensor, a
  module) which is not a \<^verbatim>\<open>Mapping\<close>, is not \<^verbatim>\<open>None\<close> and has Python's default
  truth value \<^verbatim>\<open>True\<close>.

  Strings are \<open>string\<close>; a character stands for the Unicode code point of the same
  number (the Latin-1 range).
\<close>

datatype val =
    VNone
  | VBool bool
  | VInt int
  | VStr string
  | VList "val list"
  | VDict "(string \<times> val) list"
  | VObj nat

type_synonym dict = "(string \<times> val) list"

text \<open>\<^verbatim>\<open>bool(v)\<close>, as used by \<^verbatim>\<open>if not model_config\<close>.\<close>

fun truthy :: "val \<Rightarrow> bool" where
  "truthy VNone = False"
| "truthy (VBool b) = b"
| "truthy (VInt i) = (i \<noteq> 0)"
| "truthy (VStr s) = (s \<noteq> [])"
| "truthy (VList xs) = (xs \<noteq> [])"
| "truthy (VDict m) = (m \<noteq> [])"
| "truthy (VObj n) = True"

text \<open>\<^verbatim>\<open>d.get(key, default)\<close>.\<close>

definition dict_get :: "dict \<Rightarrow> string \<Rightarrow> val \<Rightarrow> val" where
  "dict_get m key dflt = (case map_of m key of Some v \<Rightarrow> v | None \<Rightarrow> dflt)"

section \<open>The nested search \<^verbatim>\<open>_get_val\<close>\<close>

text \<open>
  \<^verbatim>\<open>
  def _get_val(input_dict: Mapping, key="model", default=None):
      if key in input_dict:
          return input_dict[key]
      for sub_dict in input_dict:
          val = input_dict[sub_dict]
          if isinstance(val, Mapping):
              found_val = _get_val(val, key=key, default=None)
              if found_val is not None:
                  return found_val
      return default
  \<close>
  \<open>get_val_loop\<close> is the \<^verbatim>\<open>for\<close> loop over the entries that are still to be visited;
  it yields \<open>Some\<close> of the value returned from inside the loop, and \<open>None\<close> when the loop
  runs to its end. Iterating the keys and reading \<^verbatim>\<open>input_dict[sub_dict]\<close> visits the
  entries in order.
\<close>

function (sequential) get_val :: "dict \<Rightarrow> string \<Rightarrow> val \<Rightarrow> val"
  and get_val_loop :: "dict \<Rightarrow> string \<Rightarrow> val option" where
  "get_val input_dict key dflt =
     (case map_of input_dict key of
        Some v \<Rightarrow> v
      | None \<Rightarrow> (case get_val_loop input_dict key of
                   Some found_val \<Rightarrow> found_val
                 | None \<Rightarrow> dflt))"
| "get_val_loop [] key = None"
| "get_val_loop ((sub_dict, VDict val) # rest) key =
     (let found_val = get_val val key VNone
      in if found_val \<noteq> VNone then Some found_val else get_val_loop rest key)"
| "get_val_loop ((sub_dict, val) # rest) key = get_val_loop rest key"
  by pat_completeness auto
termination
  by (relation "measure (\<lambda>x. case x of
        Inl (m, k, d) \<Rightarrow> 2 * size (VDict m) + 1
      | Inr (m, k) \<Rightarrow> 2 * size (VDict m))") auto

text \<open>
  The same search with an explicit bound on the depth of the Python call stack:
  \<open>None\<close> means that the bound was reached before the search returned.
\<close>

fun get_val_fuel :: "nat \<Rightarrow> dict \<Rightarrow> string \<Rightarrow> val \<Rightarrow> val option"
  and get_val_loop_fuel :: "nat \<Rightarrow> dict \<Rightarrow> string \<Rightarrow> val \<Rightarrow> val option" where
  "get_val_fuel 0 input_dict key dflt = None"
| "get_val_fuel (Suc n) input_dict key dflt =
     (case map_of input_dict key of
        Some v \<Rightarrow> Some v
      | None \<Rightarrow> get_val_loop_fuel n input_dict key dflt)"
| "get_val_loop_fuel n [] key dflt = Some dflt"
| "get_val_loop_fuel n ((sub_dict, VDict val) # rest) key dflt =
     (case get_val_fuel n val key VNone of
        None \<Rightarrow> None
      | Some found_val \<Rightarrow>
          if found_val \<noteq> VNone then Some found_val
          else get_val_loop_fuel n rest key dflt)"
| "get_val_loop_fuel n ((sub_dict, val) # rest) key dflt =
     get_val_loop_fuel n rest key dflt"

text \<open>The nesting depth of a mapping: one more than the deepest mapping among its values.\<close>

fun val_depth :: "val \<Rightarrow> nat" and dict_depth :: "dict \<Rightarrow> nat" where
  "val_depth (VDict m) = Suc (dict_depth m)"
| "val_depth v = 0"
| "dict_depth [] = 0"
| "dict_depth ((k, v) # rest) = max (val_depth v) (dict_depth rest)"

text \<open>Every entry \<open>(key, value)\<close> of a mapping, at any depth.\<close>

fun entries_deep :: "dict \<Rightarrow> (string \<times> val) set" where
  "entries_deep [] = {}"
| "entries_deep ((k, VDict sub) # rest) =
     insert (k, VDict sub) (entries_deep sub \<union> entries_deep rest)"
| "entries_deep ((k, v) # rest) = insert (k, v) (entries_deep rest)"

text \<open>The values of the mapping-valued entries of a mapping, in the mapping's order.\<close>

fun mapping_values :: "dict \<Rightarrow> dict list" where
  "mapping_values [] = []"
| "mapping_values ((k, VDict sub) # rest) = sub # mapping_values rest"
| "mapping_values ((k, v) # rest) = mapping_values rest"

section \<open>Strings and paths\<close>

text \<open>
  \<^verbatim>\<open>str.strip()\<close> removes the leading and trailing characters for which
  \<^verbatim>\<open>str.isspace\<close> holds; below code point 256 these are 9 to 13, 28 to 32, 133 and 160.
  \<^verbatim>\<open>str.lower()\<close> maps \<^verbatim>\<open>A\<close> to \<^verbatim>\<open>Z\<close> and the capital letters 192 to 222 (without the
  multiplication sign 215) to the code point 32 above.
\<close>

definition isspace :: "char \<Rightarrow> bool" where
  "isspace c =
     (let n = (of_char c :: nat)
      in (9 \<le> n \<and> n \<le> 13) \<or> (28 \<le> n \<and> n \<le> 32) \<or> n = 133 \<or> n = 160)"

definition lower_char :: "char \<Rightarrow> char" where
  "lower_char c =
     (let n = (of_char c :: nat)
      in if (65 \<le> n \<and> n \<le> 90) \<or> (192 \<le> n \<and> n \<le> 222 \<and> n \<noteq> 215)
         then char_of (n + 32) else c)"

definition strip :: "string \<Rightarrow> string" where
  "strip s = rev (dropWhile isspace (rev (dropWhile isspace s)))"

definition lower :: "string \<Rightarrow> string" where
  "lower s = map lower_char s"

text \<open>\<^verbatim>\<open>s.endswith(suf)\<close>.\<close>

definition endswith :: "string \<Rightarrow> string \<Rightarrow> bool" where
  "endswith s suf = (drop (length s - length suf) s = suf)"

text \<open>
  \<^verbatim>\<open>os.path.join(a, b)\<close> of \<^verbatim>\<open>posixpath\<close>: an absolute \<open>b\<close> replaces \<open>a\<close>; otherwise
  \<open>b\<close> is appended, after a separator unless \<open>a\<close> is empty or ends with one.
\<close>

definition path_join :: "string \<Rightarrow> string \<Rightarrow> string" where
  "path_join a b =
     (if b \<noteq> [] \<and> hd b = CHR ''/'' then b
      else if a = [] \<or> last a = CHR ''/'' then a @ b
      else a @ ''/'' @ b)"

text \<open>
  \<^verbatim>\<open>p.rsplit(".", 1)\<close> unpacked into two names: the parts before and after the last
  dot, \<open>None\<close> when \<open>p\<close> has no dot (the unpacking raises \<^verbatim>\<open>ValueError\<close>).
\<close>

definition rsplit_dot :: "string \<Rightarrow> (string \<times> string) option" where
  "rsplit_dot p =
     (if CHR ''.'' \<in> set p
      then Some (rev (tl (dropWhile (\<lambda>c. c \<noteq> CHR ''.'') (rev p))),
                 rev (takeWhile (\<lambda>c. c \<noteq> CHR ''.'') (rev p)))
      else None)"

section \<open>The descriptor table \<^verbatim>\<open>MODEL_DESC\<close>\<close>

text \<open>
  A descriptor is a dictionary with the keys of \<^verbatim>\<open>RemoteMMARKeys\<close>; \<^verbatim>\<open>hash_val\<close> is
  \<^verbatim>\<open>None\<close> in every entry of the table and \<^verbatim>\<open>config_file\<close> is present in some entries
  only.
\<close>

record descriptor =
  ID :: string
  NAME :: string
  URL :: string
  DOC :: string
  FILE_TYPE :: string
  HASH_TYPE :: string
  HASH_VAL :: "string option"
  MODEL_FILE :: string
  CONFIG_FILE :: "string option"

definition MODEL_DESC :: "descriptor list" where
  "MODEL_DESC = [
    \<lparr>ID = ''clara_pt_prostate_mri_segmentation_1'',
     NAME = ''clara_pt_prostate_mri_segmentation'',
     URL = ''https://api.ngc.nvidia.com/v2/models/nvidia/med/clara_pt_prostate_mri_segmentation/versions/1/zip'',
     DOC = ''https://ngc.nvidia.com/catalog/models/nvidia:med:clara_pt_prostate_mri_segmentation'',
     FILE_TYPE = ''zip'', HASH_TYPE = ''md5'', HASH_VAL = None,
     MODEL_FILE = path_join ''models'' ''model.pt'',
     CONFIG_FILE = None\<rparr>,
    \<lparr>ID = ''clara_pt_covid19_ct_lesion_segmentation_1'',
     NAME = ''clara_pt_covid19_ct_lesion_segmentation'',
     URL = ''https://api.ngc.nvidia.com/v2/models/nvidia/med/clara_pt_covid19_ct_lesion_segmentation/versions/1/zip'',
     DOC = ''https://ngc.nvidia.com/catalog/models/nvidia:med:clara_pt_covid19_ct_lesion_segmentation'',
     FILE_TYPE = ''zip'', HASH_TYPE = ''md5'', HASH_VAL = None,
     MODEL_FILE = path_join ''models'' ''model.pt'',
     CONFIG_FILE = None\<rparr>,
    \<lparr>ID = ''clara_pt_fed_learning_brain_tumor_mri_segmentation_1'',
     NAME = ''clara_pt_fed_learning_brain_tumor_mri_segmentation'',
     URL = ''https://api.ngc.nvidia.com/v2/models/nvidia/med/clara_pt_fed_learning_brain_tumor_mri_segmentation/versions/1/zip'',
     DOC = ''https://ngc.nvidia.com/catalog/models/nvidia:med:clara_pt_fed_learning_brain_tumor_mri_segmentation'',
     FILE_TYPE = ''zip'', HASH_TYPE = ''md5'', HASH_VAL = None,
     MODEL_FILE = path_join (path_join ''models'' ''server'') ''best_FL_global_model.pt'',
     CONFIG_FILE = None\<rparr>,
    \<lparr>ID = ''clara_pt_pathology_metastasis_detection_1'',
     NAME = ''clara_pt_pathology_metastasis_detection'',
     URL = ''https://api.ngc.nvidia.com/v2/models/nvidia/med/clara_pt_pathology_metastasis_detection/versions/1/zip'',
     DOC = ''https://ngc.nvidia.com/catalog/models/nvidia:med:clara_pt_pathology_metastasis_detection'',
     FILE_TYPE = ''zip'', HASH_TYPE = ''md5'', HASH_VAL = None,
     MODEL_FILE = path_join ''models'' ''model.pt'',
     CONFIG_FILE = Some (path_join ''config'' ''config_train.json'')\<rparr>,
    \<lparr>ID = ''clara_pt_brain_mri_segmentation_1'',
     NAME = ''clara_pt_brain_mri_segmentation'',
     URL = ''https://api.ngc.nvidia.com/v2/models/nvidia/med/clara_pt_brain_mri_segmentation/versions/1/zip'',
     DOC = ''https://ngc.nvidia.com/catalog/models/nvidia:med:clara_pt_brain_mri_segmentation'',
     FILE_TYPE = ''zip'', HASH_TYPE = ''md5'', HASH_VAL = None,
     MODEL_FILE = path_join ''models'' ''model.pt'',
     CONFIG_FILE = None\<rparr>,
    \<lparr>ID = ''clara_pt_brain_mri_segmentation_t1c_1'',
     NAME = ''clara_pt_brain_mri_segmentation_t1c'',
     URL = ''https://api.ngc.nvidia.com/v2/models/nvidia/med/clara_pt_brain_mri_segmentation_t1c/versions/1/zip'',
     DOC = ''https://ngc.nvidia.com/catalog/models/nvidia:med:clara_pt_brain_mri_segmentation_t1c'',
     FILE_TYPE = ''zip'', HASH_TYPE = ''md5'', HASH_VAL = None,
     MODEL_FILE = path_join ''models'' ''model.pt'',
     CONFIG_FILE = None\<rparr>,
    \<lparr>ID = ''clara_pt_liver_and_tumor_ct_segmentation_1'',
     NAME = ''clara_pt_liver_and_tumor_ct_segmentation'',
     URL = ''https://api.ngc.nvidia.com/v2/models/nvidia/med/clara_pt_liver_and_tumor_ct_segmentation/versions/1/zip'',
     DOC = ''https://ngc.nvidia.com/catalog/models/nvidia:med:clara_pt_liver_and_tumor_ct_segmentation'',
     FILE_TYPE = ''zip'', HASH_TYPE = ''md5'', HASH_VAL = None,
     MODEL_FILE = path_join ''models'' ''model.pt'',
     CONFIG_FILE = Some (path_join ''config'' ''config_train.json'')\<rparr>,
    \<lparr>ID = ''clara_pt_pancreas_and_tumor_ct_segmentation_1'',
     NAME = ''clara_pt_pancreas_and_tumor_ct_segmentation'',
     URL = ''https://api.ngc.nvidia.com/v2/models/nvidia/med/clara_pt_pancreas_and_tumor_ct_segmentation/versions/1/zip'',
     DOC = ''https://ngc.nvidia.com/catalog/models/nvidia:med:clara_pt_pancreas_and_tumor_ct_segmentation'',
     FILE_TYPE = ''zip'', HASH_TYPE = ''md5'', HASH_VAL = None,
     MODEL_FILE = path_join ''models'' ''model.pt'',
     CONFIG_FILE = Some (path_join ''config'' ''config_train.json'')\<rparr>]"

section \<open>Errors, effects and the external collaborators\<close>

text \<open>
  An exception is a value of \<open>error\<close>. \<open>BadModelConfig c\<close> is
  \<^verbatim>\<open>ValueError(f"Could not load model config {model_config}.")\<close>, whose text holds the
  rendering of the dictionary; \<open>ExternalError\<close> is an exception raised inside one of the
  collaborators.
\<close>

datatype error =
    ValueError string
  | IndexError string
  | KeyError val
  | TypeError string
  | AttributeError string
  | BadModelConfig dict
  | ExternalError string

text \<open>The keyword arguments of the call of \<^verbatim>\<open>download_and_extract\<close>.\<close>

record download_request =
  dl_url :: string
  dl_filepath :: string
  dl_output_dir :: string
  dl_hash_val :: "string option"
  dl_hash_type :: string
  dl_file_type :: string
  dl_has_base :: bool
  dl_progress :: bool

text \<open>The three places where the model configuration is looked for.\<close>

datatype source = TrainConf | ConfigFile | ModelDict

text \<open>
  What a run does beyond returning: the lines it prints, the warnings it issues, the calls
  of the collaborators, and the calls of \<^verbatim>\<open>_get_val\<close> on each of the three sources.
\<close>

datatype event =
    Print string
  | PrintAvailableSpecs "descriptor list"
  | PrintModel nat
  | PrintModelParams val
  | Warn string
  | DownloadAndExtract download_request
  | TorchLoad string "string option"
  | TorchJitLoad string "string option"
  | OpenJson string
  | Search source
  | LookupNets string
  | OptionalImport string string
  | Construct nat dict
  | LoadStateDict nat val

type_synonym 'a res = "event list \<times> (error + 'a)"

text \<open>Sequencing: an exception ends the run, and the events so far are kept.\<close>

definition seq :: "'a res \<Rightarrow> ('a \<Rightarrow> 'b res) \<Rightarrow> 'b res" where
  "seq m f =
     (case m of
        (t, Inl e) \<Rightarrow> (t, Inl e)
      | (t, Inr x) \<Rightarrow> (case f x of (t', r) \<Rightarrow> (t @ t', r)))"

text \<open>
  The collaborators, which are not part of \<^verbatim>\<open>mmars.py\<close>:
  \<^item> \<open>hub_get_dir\<close>: \<^verbatim>\<open>optional_import("torch.hub", name="get_dir")\<close> and the call of
    the function it yields; \<open>None\<close> when \<^verbatim>\<open>has_home\<close> is false;
  \<^item> \<open>download_and_extract\<close>: \<open>None\<close> on success, \<open>Some\<close> of the exception it raises;
  \<^item> \<open>torch_load\<close>: \<^verbatim>\<open>torch.load(model_file, map_location=...)\<close>, a dictionary;
  \<^item> \<open>torch_jit_load\<close>: \<^verbatim>\<open>torch.jit.load(model_file, map_location=...)\<close>, an object;
  \<^item> \<open>json_load\<close>: \<^verbatim>\<open>open(json_path)\<close>, \<^verbatim>\<open>json.load(f)\<close> and \<^verbatim>\<open>dict(conf_dict)\<close>
    together;
  \<^item> \<open>monai_nets\<close>: the table \<^verbatim>\<open>monai_nets.__dict__\<close>;
  \<^item> \<open>optional_import\<close>: \<open>None\<close> when \<^verbatim>\<open>has_cls\<close> is false;
  \<^item> \<open>construct\<close>: the call \<^verbatim>\<open>model_cls(**model_kwargs)\<close>;
  \<^item> \<open>load_state_dict\<close>: \<open>None\<close> on success, \<open>Some\<close> of the exception it raises.
  Classes, script modules and model instances are opaque and stand as numbers.
\<close>

record env =
  hub_get_dir :: "string option"
  download_and_extract :: "download_request \<Rightarrow> error option"
  torch_load :: "string \<Rightarrow> string option \<Rightarrow> error + dict"
  torch_jit_load :: "string \<Rightarrow> string option \<Rightarrow> error + nat"
  json_load :: "string \<Rightarrow> error + dict"
  monai_nets :: "string \<Rightarrow> nat option"
  optional_import :: "string \<Rightarrow> string \<Rightarrow> nat option"
  construct :: "nat \<Rightarrow> dict \<Rightarrow> error + nat"
  load_state_dict :: "nat \<Rightarrow> val \<Rightarrow> error option"

section \<open>Descriptor resolution \<^verbatim>\<open>_get_model_spec\<close>\<close>

text \<open>
  The argument \<^verbatim>\<open>idx\<close>: an \<^verbatim>\<open>int\<close>, a \<^verbatim>\<open>str\<close>, or any other object, given by its
  \<^verbatim>\<open>str()\<close> rendering.
\<close>

datatype idx = IdxInt int | IdxStr string | IdxOther string

text \<open>
  \<^verbatim>\<open>t[i]\<close> on a tuple: an index below zero counts from the end, and an index outside
  \<open>-len(t) \<le> i < len(t)\<close> raises \<^verbatim>\<open>IndexError\<close>.
\<close>

definition tuple_getitem :: "'a list \<Rightarrow> int \<Rightarrow> error + 'a" where
  "tuple_getitem t i =
     (if 0 \<le> i \<and> i < int (length t) then Inr (t ! nat i)
      else if i < 0 \<and> - int (length t) \<le> i then Inr (t ! nat (int (length t) + i))
      else Inl (IndexError ''tuple index out of range''))"

text \<open>
  \<^verbatim>\<open>
  def _get_model_spec(idx):
      if isinstance(idx, int):
          return MODEL_DESC[idx]
      if isinstance(idx, str):
          key = idx.strip().lower()
          for cand in MODEL_DESC:
              if cand[Keys.ID].strip().lower() == key:
                  return cand
      print(f"Available specs are: {MODEL_DESC}.")
      raise ValueError(f"Unknown MODEL_DESC request: {idx}")
  \<close>
\<close>

definition unknown_request :: "string \<Rightarrow> descriptor res" where
  "unknown_request rendering =
     ([PrintAvailableSpecs MODEL_DESC],
      Inl (ValueError (''Unknown MODEL_DESC request: '' @ rendering)))"

fun get_model_spec :: "idx \<Rightarrow> descriptor res" where
  "get_model_spec (IdxInt i) = ([], tuple_getitem MODEL_DESC i)"
| "get_model_spec (IdxStr s) =
     (let key = lower (strip s)
      in case find (\<lambda>cand. lower (strip (ID cand)) = key) MODEL_DESC of
           Some cand \<Rightarrow> ([], Inr cand)
         | None \<Rightarrow> unknown_request s)"
| "get_model_spec (IdxOther rendering) = unknown_request rendering"

section \<open>\<^verbatim>\<open>download_mmar\<close>\<close>

text \<open>The argument \<^verbatim>\<open>item\<close>: a descriptor (a \<^verbatim>\<open>Mapping\<close>) or a request for one.\<close>

datatype item = ItemDesc descriptor | ItemIdx idx

definition resolve_item :: "item \<Rightarrow> descriptor res" where
  "resolve_item it = (case it of ItemDesc d \<Rightarrow> ([], Inr d) | ItemIdx i \<Rightarrow> get_model_spec i)"

definition default_mmar_dir :: "env \<Rightarrow> string option \<Rightarrow> string res" where
  "default_mmar_dir E mmar_dir =
     (if mmar_dir = None \<or> mmar_dir = Some []
      then (case hub_get_dir E of
              Some d \<Rightarrow> ([], Inr (path_join d ''mmars''))
            | None \<Rightarrow> ([], Inl (ValueError
                ''mmar_dir=None, but no suitable default directory computed. Upgrade Pytorch to 1.6+ ?'')))
      else ([], Inr (the mmar_dir)))"

definition download_mmar :: "env \<Rightarrow> item \<Rightarrow> string option \<Rightarrow> bool \<Rightarrow> string res" where
  "download_mmar E it mmar_dir progress =
     seq (resolve_item it) (\<lambda>item.
     seq (default_mmar_dir E mmar_dir) (\<lambda>mmar_dir.
       let model_dir = path_join mmar_dir (ID item);
           req = \<lparr>dl_url = URL item,
                  dl_filepath = path_join mmar_dir (ID item @ ''.'' @ FILE_TYPE item),
                  dl_output_dir = model_dir,
                  dl_hash_val = HASH_VAL item,
                  dl_hash_type = HASH_TYPE item,
                  dl_file_type = FILE_TYPE item,
                  dl_has_base = False,
                  dl_progress = progress\<rparr>
       in ([DownloadAndExtract req],
           case download_and_extract E req of
             Some e \<Rightarrow> Inl e
           | None \<Rightarrow> Inr model_dir)))"

section \<open>\<^verbatim>\<open>load_from_mmar\<close>\<close>

subsection \<open>\<^verbatim>\<open>_get_val\<close> on a value that need not be a mapping\<close>

text \<open>
  \<^verbatim>\<open>load_from_mmar\<close> passes the \<^verbatim>\<open>"train_conf"\<close> entry of the weights file to
  \<^verbatim>\<open>_get_val\<close> whatever it is. On a list, \<^verbatim>\<open>key in input_dict\<close> is membership, and the
  loop reads \<^verbatim>\<open>input_dict[sub_dict]\<close> with the elements as indices. On a string the
  membership test is a substring test, and both \<^verbatim>\<open>input_dict[key]\<close> and
  \<^verbatim>\<open>input_dict[sub_dict]\<close> raise \<^verbatim>\<open>TypeError\<close>, so only the empty string (with a
  non-empty key) reaches \<^verbatim>\<open>return default\<close>. On the other values the membership test
  raises \<^verbatim>\<open>TypeError\<close>.
\<close>

fun list_getitem :: "val list \<Rightarrow> val \<Rightarrow> error + val" where
  "list_getitem xs (VInt i) =
     (if 0 \<le> i \<and> i < int (length xs) then Inr (xs ! nat i)
      else if i < 0 \<and> - int (length xs) \<le> i then Inr (xs ! nat (int (length xs) + i))
      else Inl (IndexError ''list index out of range''))"
| "list_getitem xs (VBool b) =
     (if (if b then 1 else 0) < length xs then Inr (xs ! (if b then 1 else 0))
      else Inl (IndexError ''list index out of range''))"
| "list_getitem xs v = Inl (TypeError ''list indices must be integers or slices'')"

fun get_val_list_loop :: "val list \<Rightarrow> val list \<Rightarrow> string \<Rightarrow> val \<Rightarrow> error + val" where
  "get_val_list_loop xs [] key dflt = Inr dflt"
| "get_val_list_loop xs (sub_dict # rest) key dflt =
     (case list_getitem xs sub_dict of
        Inl e \<Rightarrow> Inl e
      | Inr (VDict val) \<Rightarrow>
          (let found_val = get_val val key VNone
           in if found_val \<noteq> VNone then Inr found_val
              else get_val_list_loop xs rest key dflt)
      | Inr val \<Rightarrow> get_val_list_loop xs rest key dflt)"

fun get_val_any :: "val \<Rightarrow> string \<Rightarrow> val \<Rightarrow> error + val" where
  "get_val_any (VDict m) key dflt = Inr (get_val m key dflt)"
| "get_val_any (VList xs) key dflt =
     (if VStr key \<in> set xs then Inl (TypeError ''list indices must be integers or slices'')
      else get_val_list_loop xs xs key dflt)"
| "get_val_any (VStr s) key dflt =
     (if s = [] \<and> key \<noteq> [] then Inr dflt
      else Inl (TypeError ''string indices must be integers''))"
| "get_val_any v key dflt = Inl (TypeError ''argument is not iterable'')"

subsection \<open>Lines 124 to 128: the descriptor, the archive and the model file\<close>

text \<open>
  \<^verbatim>\<open>
  if not isinstance(item, Mapping):
      item = _get_model_spec(item)
  model_dir = download_mmar(item=item, mmar_dir=mmar_dir, progress=progress)
  model_file = os.path.join(model_dir, item[Keys.MODEL_FILE])
  print(f'\n*** "{item[Keys.ID]}" available at {model_dir}.')
  \<close>
\<close>

definition locate :: "env \<Rightarrow> item \<Rightarrow> string option \<Rightarrow> bool \<Rightarrow> (descriptor \<times> string \<times> string) res" where
  "locate E it mmar_dir progress =
     seq (resolve_item it) (\<lambda>item.
     seq (download_mmar E (ItemDesc item) mmar_dir progress) (\<lambda>model_dir.
       let model_file = path_join model_dir (MODEL_FILE item)
       in ([Print ([CHR 0x0A] @ ''*** '' @ [CHR 0x22] @ ID item @ [CHR 0x22]
                   @ '' available at '' @ model_dir @ ''.'')],
           Inr (item, model_dir, model_file))))"

subsection \<open>Lines 131 to 136: a script module\<close>

datatype loaded = ScriptModule nat | Weights val | ModelInst nat

definition load_script_module :: "env \<Rightarrow> string \<Rightarrow> string option \<Rightarrow> bool \<Rightarrow> bool \<Rightarrow> loaded res" where
  "load_script_module E model_file map_location pretrained weights_only =
     ((if \<not> pretrained then [Warn ''Loading a ScriptModule, 'pretrained' option ignored.''] else [])
      @ (if weights_only then [Warn ''Loading a ScriptModule, 'weights_only' option ignored.''] else [])
      @ [TorchJitLoad model_file map_location],
      case torch_jit_load E model_file map_location of
        Inl e \<Rightarrow> Inl e
      | Inr m \<Rightarrow> Inr (ScriptModule m))"

subsection \<open>Lines 143 to 160: the model configuration\<close>

text \<open>
  \<^verbatim>\<open>
  raise ValueError(
      f"Could not load model config dictionary from config: {item.get(Keys.CONFIG_FILE)}, "
      f"or from model file: {item.get(Keys.MODEL_FILE)}."
  )
  \<close>
  \<^verbatim>\<open>item.get(Keys.CONFIG_FILE)\<close> is \<^verbatim>\<open>None\<close> for a descriptor without that key, and is
  rendered as \<^verbatim>\<open>None\<close>.
\<close>

definition config_error :: "descriptor \<Rightarrow> error" where
  "config_error item =
     ValueError (''Could not load model config dictionary from config: ''
       @ (case CONFIG_FILE item of None \<Rightarrow> ''None'' | Some p \<Rightarrow> p)
       @ '', or from model file: '' @ MODEL_FILE item @ ''.'')"

text \<open>Line 147: \<^verbatim>\<open>os.path.join(model_dir, item.get(Keys.CONFIG_FILE, "config_train.json"))\<close>.\<close>

definition json_path :: "descriptor \<Rightarrow> string \<Rightarrow> string" where
  "json_path item model_dir =
     path_join model_dir
       (case CONFIG_FILE item of None \<Rightarrow> ''config_train.json'' | Some p \<Rightarrow> p)"

definition search_train_conf :: "dict \<Rightarrow> string \<Rightarrow> val res" where
  "search_train_conf model_dict model_key =
     ([Search TrainConf],
      get_val_any (dict_get model_dict ''train_conf'' (VDict [])) model_key (VDict []))"

definition search_config_file :: "env \<Rightarrow> descriptor \<Rightarrow> string \<Rightarrow> string \<Rightarrow> val \<Rightarrow> val res" where
  "search_config_file E item model_dir model_key model_config =
     (if \<not> truthy model_config
      then seq ([OpenJson (json_path item model_dir)], json_load E (json_path item model_dir))
             (\<lambda>conf_dict. ([Search ConfigFile], Inr (get_val conf_dict model_key (VDict []))))
      else ([], Inr model_config))"

definition search_model_dict :: "dict \<Rightarrow> string \<Rightarrow> val \<Rightarrow> val res" where
  "search_model_dict model_dict model_key model_config =
     (if \<not> truthy model_config
      then ([Search ModelDict], Inr (get_val model_dict model_key (VDict [])))
      else ([], Inr model_config))"

definition check_model_config :: "descriptor \<Rightarrow> val \<Rightarrow> dict res" where
  "check_model_config item model_config =
     (case model_config of
        VDict c \<Rightarrow> if c \<noteq> [] then ([], Inr c) else ([], Inl (config_error item))
      | _ \<Rightarrow> ([], Inl (config_error item)))"

definition find_model_config :: "env \<Rightarrow> descriptor \<Rightarrow> string \<Rightarrow> dict \<Rightarrow> string \<Rightarrow> dict res" where
  "find_model_config E item model_dir model_dict model_key =
     seq (search_train_conf model_dict model_key) (\<lambda>c1.
     seq (search_config_file E item model_dir model_key c1) (\<lambda>c2.
     seq (search_model_dict model_dict model_key c2) (\<lambda>c3.
     check_model_config item c3)))"

subsection \<open>Lines 162 to 177: the model class\<close>

text \<open>
  \<^verbatim>\<open>
  if model_config.get("name"):  # model config section is a "name"
      model_name = model_config["name"]
      model_cls = monai_nets.__dict__[model_name]
  elif model_config.get("path"):  # model config section is a "path"
      model_module, model_name = model_config.get("path", ".").rsplit(".", 1)
      model_cls, has_cls = optional_import(module=model_module, name=model_name)
      if not has_cls:
          raise ValueError(...)
  else:
      raise ValueError(f"Could not load model config {model_config}.")
  \<close>
  A list or a dictionary is not hashable and cannot index \<^verbatim>\<open>monai_nets.__dict__\<close>; only
  a string has \<^verbatim>\<open>rsplit\<close>.
\<close>

definition lookup_nets :: "env \<Rightarrow> val \<Rightarrow> nat res" where
  "lookup_nets E model_name =
     (case model_name of
        VStr n \<Rightarrow> ([LookupNets n],
                   case monai_nets E n of Some c \<Rightarrow> Inr c | None \<Rightarrow> Inl (KeyError model_name))
      | VList xs \<Rightarrow> ([], Inl (TypeError ''unhashable type''))
      | VDict m \<Rightarrow> ([], Inl (TypeError ''unhashable type''))
      | _ \<Rightarrow> ([], Inl (KeyError model_name)))"

definition import_path :: "env \<Rightarrow> string \<Rightarrow> val \<Rightarrow> nat res" where
  "import_path E model_dir path =
     (case path of
        VStr p \<Rightarrow>
          (case rsplit_dot p of
             None \<Rightarrow> ([], Inl (ValueError ''not enough values to unpack (expected 2, got 1)''))
           | Some (model_module, model_name) \<Rightarrow>
               ([OptionalImport model_module model_name],
                case optional_import E model_module model_name of
                  Some c \<Rightarrow> Inr c
                | None \<Rightarrow> Inl (ValueError (''Could not load MMAR model config '' @ p
                    @ '', Please make sure MMAR's sub-folders in ''
                    @ [CHR 0x27] @ model_dir @ [CHR 0x27] @ '' is on the PYTHONPATH.''
                    @ ''See also: https://docs.nvidia.com/clara/clara-train-sdk/pt/byom.html''))))
      | _ \<Rightarrow> ([], Inl (AttributeError ''rsplit'')))"

definition resolve_model_cls :: "env \<Rightarrow> string \<Rightarrow> dict \<Rightarrow> nat res" where
  "resolve_model_cls E model_dir model_config =
     (if truthy (dict_get model_config ''name'' VNone)
      then lookup_nets E (dict_get model_config ''name'' VNone)
      else if truthy (dict_get model_config ''path'' VNone)
      then import_path E model_dir (dict_get model_config ''path'' (VStr ''.''))
      else ([], Inl (BadModelConfig model_config)))"

subsection \<open>Lines 179 to 190: the model instance\<close>

text \<open>
  \<^verbatim>\<open>
  print(f"*** Model: {model_cls}")
  model_kwargs = model_config.get("args", None)
  if model_kwargs:
      model_inst = model_cls(**model_kwargs)
      print(f"*** Model params: {model_kwargs}")
  else:
      model_inst = model_cls()
  if pretrained:
      model_inst.load_state_dict(model_dict.get(model_key, model_dict))
  print("\n---")
  print(f"For more information, please visit {item[Keys.DOC]}\n")
  return model_inst
  \<close>
\<close>

definition make_instance :: "env \<Rightarrow> nat \<Rightarrow> val \<Rightarrow> nat res" where
  "make_instance E model_cls model_kwargs =
     (if truthy model_kwargs
      then (case model_kwargs of
              VDict kw \<Rightarrow> seq ([Construct model_cls kw], construct E model_cls kw)
                           (\<lambda>model_inst. ([PrintModelParams model_kwargs], Inr model_inst))
            | _ \<Rightarrow> ([], Inl (TypeError ''argument after ** must be a mapping'')))
      else ([Construct model_cls []], construct E model_cls []))"

definition load_weights :: "env \<Rightarrow> dict \<Rightarrow> string \<Rightarrow> bool \<Rightarrow> nat \<Rightarrow> unit res" where
  "load_weights E model_dict model_key pretrained model_inst =
     (if pretrained
      then ([LoadStateDict model_inst (dict_get model_dict model_key (VDict model_dict))],
            case load_state_dict E model_inst (dict_get model_dict model_key (VDict model_dict)) of
              Some e \<Rightarrow> Inl e
            | None \<Rightarrow> Inr ())
      else ([], Inr ()))"

definition instantiate :: "env \<Rightarrow> descriptor \<Rightarrow> dict \<Rightarrow> string \<Rightarrow> bool \<Rightarrow> nat \<Rightarrow> dict \<Rightarrow> loaded res" where
  "instantiate E item model_dict model_key pretrained model_cls model_config =
     seq ([PrintModel model_cls], Inr ()) (\<lambda>_.
     seq (make_instance E model_cls (dict_get model_config ''args'' VNone)) (\<lambda>model_inst.
     seq (load_weights E model_dict model_key pretrained model_inst) (\<lambda>_.
       ([Print ([CHR 0x0A] @ ''---''),
         Print (''For more information, please visit '' @ DOC item @ [CHR 0x0A])],
        Inr (ModelInst model_inst)))))"

subsection \<open>The whole function\<close>

definition load_from_mmar ::
  "env \<Rightarrow> item \<Rightarrow> string option \<Rightarrow> bool \<Rightarrow> string option \<Rightarrow> bool \<Rightarrow> bool \<Rightarrow> string \<Rightarrow> loaded res" where
  "load_from_mmar E it mmar_dir progress map_location pretrained weights_only model_key =
     seq (locate E it mmar_dir progress) (\<lambda>(item, model_dir, model_file).
       if endswith model_file ''.ts''
       then load_script_module E model_file map_location pretrained weights_only
       else seq ([TorchLoad model_file map_location], torch_load E model_file map_location)
              (\<lambda>model_dict.
         if weights_only
         then ([], Inr (Weights (dict_get model_dict model_key (VDict model_dict))))
         else seq (find_model_config E item model_dir model_dict model_key) (\<lambda>model_config.
              seq (resolve_model_cls E model_dir model_config) (\<lambda>model_cls.
              instantiate E item model_dict model_key pretrained model_cls model_config))))"

text \<open>The consultations of the three configuration sources in a run, in the order they happen.\<close>

fun is_consultation :: "event \<Rightarrow> bool" where
  "is_consultation (Search s) = True"
| "is_consultation (OpenJson p) = True"
| "is_consultation e = False"

definition consultations :: "event list \<Rightarrow> event list" where
  "consultations tr = filter is_consultation tr"

section \<open>Example collaborators\<close>

text \<open>
  Collaborators on which every download succeeds, \<^verbatim>\<open>torch.load\<close> yields a given
  dictionary, reading the configuration file yields a given outcome, and the only known
  network class is \<^verbatim>\<open>UNet\<close>; and a descriptor with a given model file and no
  \<^verbatim>\<open>config_file\<close> entry.
\<close>

definition example_env :: "dict \<Rightarrow> (error + dict) \<Rightarrow> env" where
  "example_env model_dict conf =
     \<lparr>hub_get_dir = Some ''/home/user/.cache/torch/hub'',
      download_and_extract = (\<lambda>req. None),
      torch_load = (\<lambda>f loc. Inr model_dict),
      torch_jit_load = (\<lambda>f loc. Inr 7),
      json_load = (\<lambda>p. conf),
      monai_nets = (\<lambda>n. if n = ''UNet'' then Some 1 else None),
      optional_import = (\<lambda>m n. None),
      construct = (\<lambda>c kw. Inr (c + 100)),
      load_state_dict = (\<lambda>i w. None)\<rparr>"

definition example_item :: "string \<Rightarrow> descriptor" where
  "example_item model_file =
     \<lparr>ID = ''m1'', NAME = ''m'', URL = ''https://host/m/1/zip'', DOC = ''https://host/m'',
      FILE_TYPE = ''zip'', HASH_TYPE = ''md5'', HASH_VAL = None,
      MODEL_FILE = model_file, CONFIG_FILE = None\<rparr>"

definition example_train_conf :: dict where
  "example_train_conf =
     [(''train_conf'', VDict [(''train'', VDict [(''model'', VDict [(''name'', VStr ''UNet'')])])])]"

section \<open>Properties of the nested search\<close>

lemma get_val_loop_find:
  "get_val_loop m k
     = find (\<lambda>r. r \<noteq> VNone) (map (\<lambda>sub. get_val sub k VNone) (mapping_values m))"
  by (induction m rule: mapping_values.induct) (simp_all add: Let_def)

lemma set_subset_entries_deep: "set m \<subseteq> entries_deep m"
  by (induction m rule: entries_deep.induct) auto

lemma map_of_entries_deep: "map_of m k = Some v \<Longrightarrow> (k, v) \<in> entries_deep m"
  using set_subset_entries_deep map_of_SomeD by fastforce

lemma get_val_absent:
  "k \<notin> fst ` entries_deep m \<Longrightarrow> get_val m k d = d"
  "k \<notin> fst ` entries_deep m \<Longrightarrow> get_val_loop m k = None"
proof (induction m k d and m k rule: get_val_get_val_loop.induct)
  case (1 input_dict key dflt)
  have "map_of input_dict key = None"
  proof (cases "map_of input_dict key")
    case (Some v)
    then have "(key, v) \<in> entries_deep input_dict" by (rule map_of_entries_deep)
    then have "key \<in> fst ` entries_deep input_dict" by force
    with 1 show ?thesis by simp
  qed simp
  with 1 show ?case by simp
next
  case (3 sub_dict val rest key)
  then show ?case by (auto simp: Let_def)
qed auto

lemma get_val_found:
  "get_val m k d \<noteq> d \<Longrightarrow> (k, get_val m k d) \<in> entries_deep m"
  "get_val_loop m k = Some v \<Longrightarrow> (k, v) \<in> entries_deep m"
proof (induction m k d and m k arbitrary: and v rule: get_val_get_val_loop.induct)
  case (1 input_dict key dflt)
  then show ?case by (auto split: option.splits dest: map_of_entries_deep)
next
  case (3 sub_dict val rest key)
  then show ?case by (auto simp: Let_def split: if_splits)
qed auto

lemma get_val_fuel_enough:
  "dict_depth m < n \<Longrightarrow> get_val_fuel n m k d = Some (get_val m k d)"
  "dict_depth m \<le> n \<Longrightarrow>
     get_val_loop_fuel n m k d = Some (case get_val_loop m k of Some v \<Rightarrow> v | None \<Rightarrow> d)"
proof (induction n m k d and n m k d rule: get_val_fuel_get_val_loop_fuel.induct)
  case (2 n input_dict key dflt)
  then show ?case by (simp split: option.splits)
next
  case (4 n sub_dict val rest key dflt)
  then show ?case by (auto split: option.splits)
qed simp_all

lemma get_val_complete:
  "k \<in> fst ` entries_deep m \<Longrightarrow> (k, VNone) \<notin> entries_deep m
     \<Longrightarrow> (k, get_val m k d) \<in> entries_deep m \<and> get_val m k d \<noteq> VNone"
  "k \<notin> fst ` set m \<Longrightarrow> k \<in> fst ` entries_deep m \<Longrightarrow> (k, VNone) \<notin> entries_deep m
     \<Longrightarrow> \<exists>v. get_val_loop m k = Some v \<and> (k, v) \<in> entries_deep m \<and> v \<noteq> VNone"
proof (induction m k d and m k rule: get_val_get_val_loop.induct)
  case (1 input_dict key dflt)
  show ?case
  proof (cases "map_of input_dict key")
    case (Some v)
    then have "(key, v) \<in> entries_deep input_dict" by (rule map_of_entries_deep)
    moreover from this 1(3) have "v \<noteq> VNone" by auto
    ultimately show ?thesis using Some by simp
  next
    case None
    then have "key \<notin> fst ` set input_dict" by (simp add: map_of_eq_None_iff)
    with 1(1)[OF None] 1(2,3) obtain v where
      "get_val_loop input_dict key = Some v" "(key, v) \<in> entries_deep input_dict" "v \<noteq> VNone"
      by blast
    with None show ?thesis by simp
  qed
next
  case (2 key)
  then show ?case by simp
next
  case (3 sub_dict val rest key)
  from 3(3) have nk: "key \<notin> fst ` set rest" by auto
  show ?case
  proof (cases "key \<in> fst ` entries_deep val")
    case True
    moreover from 3(5) have "(key, VNone) \<notin> entries_deep val" by simp
    ultimately have "(key, get_val val key VNone) \<in> entries_deep val"
      and "get_val val key VNone \<noteq> VNone"
      using 3(1) by blast+
    then show ?thesis by (simp add: Let_def)
  next
    case False
    then have none: "get_val val key VNone = VNone" by (rule get_val_absent(1))
    from False 3(3,4) have "key \<in> fst ` entries_deep rest" by auto
    moreover from 3(5) have "(key, VNone) \<notin> entries_deep rest" by simp
    ultimately obtain v where
      "get_val_loop rest key = Some v" "(key, v) \<in> entries_deep rest" "v \<noteq> VNone"
      using 3(2) none nk by auto
    with none show ?thesis by (simp add: Let_def)
  qed
qed auto

lemma sub_mapping_depth: "(s, VDict sub) \<in> set m \<Longrightarrow> dict_depth sub < dict_depth m"
  by (induction m) (auto simp: less_max_iff_disj)

text \<open>
  C2. If the key is a direct entry of the mapping, the nested search returns that entry's
  value, and it does so in the outermost call, without a recursive call into any nested
  mapping (a call stack of depth one is enough). In particular the search for
  \<^verbatim>\<open>"model"\<close> in \<^verbatim>\<open>{"a": {"b": {"model": 1}}, "model": 2}\<close> returns 2.
\<close>

theorem get_val_direct_hit:
  "(map_of m k = Some v \<longrightarrow> get_val m k d = v \<and> get_val_fuel (Suc 0) m k d = Some v)
   \<and> get_val [(''a'', VDict [(''b'', VDict [(''model'', VInt 1)])]), (''model'', VInt 2)]
        ''model'' d = VInt 2"
  by simp

theorem get_val_direct_hit_witness:
  "map_of [(''a'', VDict [(''model'', VInt 1)]), (''model'', VNone)] ''model'' = Some VNone
   \<and> get_val [(''a'', VDict [(''model'', VInt 1)]), (''model'', VNone)] ''model'' (VInt 5) = VNone
   \<and> get_val_fuel (Suc 0) [(''a'', VDict [(''model'', VInt 1)]), (''model'', VNone)] ''model''
        (VInt 5) = Some VNone"
  using get_val_direct_hit
    [of "[(''a'', VDict [(''model'', VInt 1)]), (''model'', VNone)]" "''model''" VNone "VInt 5"]
  by simp

text \<open>
  C3. If the key is not a direct entry of the mapping, the nested search visits the
  mapping-valued entries in the mapping's order, runs the whole search inside each one
  before it looks at the next, and returns the first result that is not \<^verbatim>\<open>None\<close>; it
  returns the default when there is none. In particular the search for \<^verbatim>\<open>"model"\<close>
  returns 1 in \<^verbatim>\<open>{"a": {"model": 1}, "b": {"model": 2}}\<close>, and also in
  \<^verbatim>\<open>{"a": {"x": {"model": 1}}, "b": {"model": 2}}\<close>, where the match in the first
  sibling lies deeper than the match in the second.
\<close>

theorem get_val_first_sibling:
  "(map_of m k = None \<longrightarrow>
      get_val m k d
        = (case find (\<lambda>r. r \<noteq> VNone) (map (\<lambda>sub. get_val sub k VNone) (mapping_values m)) of
             Some r \<Rightarrow> r
           | None \<Rightarrow> d))
   \<and> get_val [(''a'', VDict [(''model'', VInt 1)]), (''b'', VDict [(''model'', VInt 2)])]
        ''model'' d = VInt 1
   \<and> get_val [(''a'', VDict [(''x'', VDict [(''model'', VInt 1)])]),
              (''b'', VDict [(''model'', VInt 2)])] ''model'' d = VInt 1"
  by (simp add: get_val_loop_find)

theorem get_val_first_sibling_witness:
  "map_of [(''a'', VInt 0), (''b'', VDict [(''c'', VInt 3)]), (''d'', VDict [(''model'', VInt 4)])]
     ''model'' = None
   \<and> get_val [(''a'', VInt 0), (''b'', VDict [(''c'', VInt 3)]), (''d'', VDict [(''model'', VInt 4)])]
        ''model'' VNone = VInt 4"
  using get_val_first_sibling
    [of "[(''a'', VInt 0), (''b'', VDict [(''c'', VInt 3)]), (''d'', VDict [(''model'', VInt 4)])]"
        "''model''" VNone]
  by simp

text \<open>
  C4, as the claim states it, fails: the mapping \<^verbatim>\<open>{"a": {"model": None}}\<close> has an entry
  for \<^verbatim>\<open>"model"\<close>, whose value is \<^verbatim>\<open>None\<close>, and the search with the default \<^verbatim>\<open>{}\<close>
  returns \<^verbatim>\<open>{}\<close>, exactly as it does on the empty mapping, which has no such entry.
\<close>

theorem get_val_null_counterexample:
  "(''model'', VNone) \<in> entries_deep [(''a'', VDict [(''model'', VNone)])]
   \<and> get_val [(''a'', VDict [(''model'', VNone)])] ''model'' (VDict []) = VDict []
   \<and> get_val [] ''model'' (VDict []) = VDict []"
  by simp

text \<open>
  C4, amended. If the mapping has no entry for the key at any depth, the nested search
  returns the default, and a result other than the default is the value of an entry for
  the key at some depth. A direct entry is returned whatever its value is, \<^verbatim>\<open>None\<close>
  included. If the key has an entry at some depth and no entry for the key holds
  \<^verbatim>\<open>None\<close>, the search returns the value of an entry for the key, and that value is
  not \<^verbatim>\<open>None\<close>: a found value that is empty (\<^verbatim>\<open>{}\<close>, \<^verbatim>\<open>''\<close>, \<^verbatim>\<open>0\<close>) is not taken for
  absence. Only \<^verbatim>\<open>None\<close> inside a nested mapping is: a nested mapping whose own entry
  for the key is \<^verbatim>\<open>None\<close> is passed over as if it had no match, and the search goes on
  with the entries after it.
\<close>

theorem get_val_not_found:
  "(k \<notin> fst ` entries_deep m \<longrightarrow> get_val m k d = d)
   \<and> (get_val m k d \<noteq> d \<longrightarrow> (k, get_val m k d) \<in> entries_deep m)
   \<and> (map_of m k = Some v \<longrightarrow> get_val m k d = v)
   \<and> (k \<in> fst ` entries_deep m \<and> (k, VNone) \<notin> entries_deep m \<longrightarrow>
        (k, get_val m k d) \<in> entries_deep m \<and> get_val m k d \<noteq> VNone)
   \<and> (s \<noteq> k \<and> map_of sub k = Some VNone \<longrightarrow>
        get_val ((s, VDict sub) # rest) k d = get_val rest k d)"
proof (intro conjI impI)
  assume "k \<notin> fst ` entries_deep m"
  then show "get_val m k d = d" by (rule get_val_absent(1))
next
  assume "get_val m k d \<noteq> d"
  then show "(k, get_val m k d) \<in> entries_deep m" by (rule get_val_found(1))
next
  assume "map_of m k = Some v"
  then show "get_val m k d = v" by simp
next
  assume h: "k \<in> fst ` entries_deep m \<and> (k, VNone) \<notin> entries_deep m"
  then show "(k, get_val m k d) \<in> entries_deep m" using get_val_complete(1) by blast
  from h show "get_val m k d \<noteq> VNone" using get_val_complete(1) by blast
next
  assume "s \<noteq> k \<and> map_of sub k = Some VNone"
  then show "get_val ((s, VDict sub) # rest) k d = get_val rest k d"
    by (auto simp: Let_def split: option.splits)
qed

theorem get_val_not_found_witness:
  "''model'' \<notin> fst ` entries_deep [(''a'', VDict [(''b'', VInt 1)])]
   \<and> get_val [(''a'', VDict [(''b'', VInt 1)])] ''model'' (VDict []) = VDict []
   \<and> get_val [(''a'', VDict [(''b'', VInt 1)])] ''b'' (VDict []) \<noteq> VDict []
   \<and> (''b'', VInt 1) \<in> entries_deep [(''a'', VDict [(''b'', VInt 1)])]
   \<and> map_of [(''a'', VDict [(''model'', VInt 1)]), (''model'', VNone)] ''model'' = Some VNone
   \<and> get_val [(''a'', VDict [(''model'', VInt 1)]), (''model'', VNone)] ''model'' (VInt 5) = VNone
   \<and> ''model'' \<in> fst ` entries_deep [(''a'', VInt 1), (''b'', VDict [(''model'', VDict [])])]
   \<and> (''model'', VNone) \<notin> entries_deep [(''a'', VInt 1), (''b'', VDict [(''model'', VDict [])])]
   \<and> get_val [(''a'', VInt 1), (''b'', VDict [(''model'', VDict [])])] ''model'' (VInt 5) = VDict []
   \<and> get_val [(''a'', VDict [(''model'', VNone)]), (''c'', VDict [(''model'', VInt 2)])]
        ''model'' (VDict []) = VInt 2"
  using get_val_not_found
    [of "''model''" "[(''a'', VDict [(''b'', VInt 1)])]" "VDict []" v "''a''"
        "[(''model'', VNone)]" "[(''c'', VDict [(''model'', VInt 2)])]" for v]
    get_val_not_found
    [of "''b''" "[(''a'', VDict [(''b'', VInt 1)])]" "VDict []"]
    get_val_not_found
    [of "''model''" "[(''a'', VDict [(''model'', VInt 1)]), (''model'', VNone)]" "VInt 5" VNone]
    get_val_not_found
    [of "''model''" "[(''a'', VInt 1), (''b'', VDict [(''model'', VDict [])])]" "VInt 5"]
  by simp

text \<open>
  C10. The nested search returns on every mapping: a call stack deeper than the nesting
  depth of the mapping is enough for it to return its result, and every recursive call is
  on a mapping of strictly smaller nesting depth.
\<close>

theorem get_val_terminates:
  "(dict_depth m < n \<longrightarrow> get_val_fuel n m k d = Some (get_val m k d))
   \<and> (\<forall>s sub. (s, VDict sub) \<in> set m \<longrightarrow> dict_depth sub < dict_depth m)"
  by (simp add: get_val_fuel_enough(1) sub_mapping_depth)

theorem get_val_terminates_witness:
  "dict_depth [(''a'', VDict [(''b'', VDict [(''c'', VInt 1)])])] < 3
   \<and> get_val_fuel 3 [(''a'', VDict [(''b'', VDict [(''c'', VInt 1)])])] ''model'' VNone = Some VNone
   \<and> (''a'', VDict [(''b'', VDict [(''c'', VInt 1)])])
        \<in> set [(''a'', VDict [(''b'', VDict [(''c'', VInt 1)])])]
   \<and> dict_depth [(''b'', VDict [(''c'', VInt 1)])]
        < dict_depth [(''a'', VDict [(''b'', VDict [(''c'', VInt 1)])])]"
  using get_val_terminates
    [of "[(''a'', VDict [(''b'', VDict [(''c'', VInt 1)])])]" 3 "''model''" VNone]
  by simp

section \<open>Properties of descriptor resolution\<close>

lemma normalised_ids_distinct: "distinct (map (\<lambda>cand. lower (strip (ID cand))) MODEL_DESC)"
  by code_simp

lemma length_MODEL_DESC: "length MODEL_DESC = 8"
  by (simp add: MODEL_DESC_def)

lemma find_distinct_image:
  "distinct (map f xs) \<Longrightarrow> i < length xs \<Longrightarrow> f (xs ! i) = y
     \<Longrightarrow> find (\<lambda>x. f x = y) xs = Some (xs ! i)"
proof (induction xs arbitrary: i)
  case Nil
  then show ?case by simp
next
  case (Cons a xs)
  show ?case
  proof (cases i)
    case 0
    with Cons.prems show ?thesis by simp
  next
    case (Suc j)
    with Cons.prems have j: "j < length xs" "f (xs ! j) = y" by simp_all
    moreover from Cons.prems have "distinct (map f xs)" by simp
    ultimately have "find (\<lambda>x. f x = y) xs = Some (xs ! j)" using Cons.IH by simp
    moreover have "f a \<noteq> y"
    proof
      assume "f a = y"
      with j have "f a \<in> set (map f xs)" by (metis length_map nth_map nth_mem)
      with Cons.prems(1) show False by simp
    qed
    ultimately show ?thesis using Suc by simp
  qed
qed

text \<open>
  C6. For every descriptor of the table, a request by a string that equals the
  descriptor's id after \<^verbatim>\<open>strip()\<close> and \<^verbatim>\<open>lower()\<close> on both sides returns that
  descriptor and prints nothing; the scan in table order finds it because the normalised
  ids of the table are pairwise distinct. A string that matches no id prints the table
  and raises \<^verbatim>\<open>ValueError\<close> with the request in its message.
\<close>

theorem get_model_spec_by_id:
  "(i < length MODEL_DESC \<and> lower (strip s) = lower (strip (ID (MODEL_DESC ! i)))
      \<longrightarrow> get_model_spec (IdxStr s) = ([], Inr (MODEL_DESC ! i)))
   \<and> ((\<forall>cand \<in> set MODEL_DESC. lower (strip s) \<noteq> lower (strip (ID cand)))
      \<longrightarrow> get_model_spec (IdxStr s)
          = ([PrintAvailableSpecs MODEL_DESC],
             Inl (ValueError (''Unknown MODEL_DESC request: '' @ s))))"
proof (intro conjI impI)
  assume a: "i < length MODEL_DESC \<and> lower (strip s) = lower (strip (ID (MODEL_DESC ! i)))"
  have "find (\<lambda>cand. lower (strip (ID cand)) = lower (strip s)) MODEL_DESC
          = Some (MODEL_DESC ! i)"
    using find_distinct_image[OF normalised_ids_distinct, of i "lower (strip s)"] a by simp
  then show "get_model_spec (IdxStr s) = ([], Inr (MODEL_DESC ! i))"
    by (simp add: Let_def)
next
  assume "\<forall>cand \<in> set MODEL_DESC. lower (strip s) \<noteq> lower (strip (ID cand))"
  then have "find (\<lambda>cand. lower (strip (ID cand)) = lower (strip s)) MODEL_DESC = None"
    by (auto simp: find_None_iff)
  then show "get_model_spec (IdxStr s)
          = ([PrintAvailableSpecs MODEL_DESC],
             Inl (ValueError (''Unknown MODEL_DESC request: '' @ s)))"
    by (simp add: Let_def unknown_request_def)
qed

theorem get_model_spec_by_id_witness:
  "ID (MODEL_DESC ! 3) = ''clara_pt_pathology_metastasis_detection_1''
   \<and> get_model_spec (IdxStr ''  Clara_PT_Pathology_Metastasis_DETECTION_1 '')
       = ([], Inr (MODEL_DESC ! 3))
   \<and> get_model_spec (IdxStr ''clara_pt_pathology'')
       = ([PrintAvailableSpecs MODEL_DESC],
          Inl (ValueError ''Unknown MODEL_DESC request: clara_pt_pathology''))"
proof -
  have h0: "ID (MODEL_DESC ! 3) = ''clara_pt_pathology_metastasis_detection_1''"
    by (simp add: MODEL_DESC_def)
  have h1: "3 < length MODEL_DESC
      \<and> lower (strip ''  Clara_PT_Pathology_Metastasis_DETECTION_1 '')
          = lower (strip (ID (MODEL_DESC ! 3)))"
    unfolding h0 length_MODEL_DESC by code_simp
  have h2: "\<forall>cand \<in> set MODEL_DESC. lower (strip ''clara_pt_pathology'') \<noteq> lower (strip (ID cand))"
    by code_simp
  from get_model_spec_by_id[of 3 "''  Clara_PT_Pathology_Metastasis_DETECTION_1 ''"]
    get_model_spec_by_id[of i "''clara_pt_pathology''" for i] h0 h1 h2
  show ?thesis by simp
qed

text \<open>
  C9. An integer request below zero and not below \<open>-len(MODEL_DESC)\<close> returns the
  descriptor at position \<open>len(MODEL_DESC) + i\<close>, counted from the end of the table, and
  raises no error.
\<close>

theorem get_model_spec_negative_index:
  "- int (length MODEL_DESC) \<le> i \<and> i < 0 \<longrightarrow>
     get_model_spec (IdxInt i) = ([], Inr (MODEL_DESC ! nat (int (length MODEL_DESC) + i)))"
  by (simp add: tuple_getitem_def)

theorem get_model_spec_negative_index_witness:
  "- int (length MODEL_DESC) \<le> - 8 \<and> (- 8 :: int) < 0
   \<and> get_model_spec (IdxInt (- 8)) = ([], Inr (MODEL_DESC ! 0))
   \<and> ID (MODEL_DESC ! 0) = ''clara_pt_prostate_mri_segmentation_1''"
  using get_model_spec_negative_index[of "- 8"]
  by (simp add: length_MODEL_DESC) (simp add: MODEL_DESC_def)

section \<open>Properties of \<^verbatim>\<open>load_from_mmar\<close>\<close>

subsection \<open>Sequencing and the consultations of each stage\<close>

lemma seq_Inl [simp]: "seq (t, Inl e) f = (t, Inl e)"
  by (simp add: seq_def)

lemma seq_Inr [simp]: "seq (t, Inr x) f = (t @ fst (f x), snd (f x))"
  by (simp add: seq_def split: prod.splits)

lemma consultations_Nil [simp]: "consultations [] = []"
  by (simp add: consultations_def)

lemma consultations_Cons [simp]:
  "consultations (e # t) = (if is_consultation e then e # consultations t else consultations t)"
  by (simp add: consultations_def)

lemma consultations_append [simp]:
  "consultations (t @ u) = consultations t @ consultations u"
  by (simp add: consultations_def)

lemma consultations_seq:
  "consultations (fst (seq m f)) =
     consultations (fst m) @ (case snd m of Inl e \<Rightarrow> [] | Inr x \<Rightarrow> consultations (fst (f x)))"
  by (cases m; cases "snd m") auto

lemma consultation_mem:
  "e \<in> set tr \<Longrightarrow> is_consultation e \<Longrightarrow> e \<in> set (consultations tr)"
  by (simp add: consultations_def)

lemma consultations_get_model_spec [simp]: "consultations (fst (get_model_spec i)) = []"
  by (cases i) (simp_all add: unknown_request_def Let_def split: option.splits)

lemma consultations_resolve_item [simp]: "consultations (fst (resolve_item it)) = []"
  by (cases it) (simp_all add: resolve_item_def)

lemma consultations_default_mmar_dir [simp]: "consultations (fst (default_mmar_dir E d)) = []"
  by (simp add: default_mmar_dir_def split: option.splits)

lemma consultations_download_mmar [simp]: "consultations (fst (download_mmar E it d p)) = []"
  unfolding download_mmar_def
  by (simp add: consultations_seq Let_def split: sum.splits)

lemma consultations_locate [simp]: "consultations (fst (locate E it d p)) = []"
  unfolding locate_def
  by (simp add: consultations_seq Let_def split: sum.splits)

lemma consultations_resolve_model_cls [simp]:
  "consultations (fst (resolve_model_cls E d c)) = []"
  by (simp add: resolve_model_cls_def lookup_nets_def import_path_def
      split: val.splits option.splits prod.splits)

lemma consultations_make_instance [simp]: "consultations (fst (make_instance E c kw)) = []"
  by (simp add: make_instance_def consultations_seq split: val.splits sum.splits)

lemma consultations_load_weights [simp]: "consultations (fst (load_weights E md k p i)) = []"
  by (simp add: load_weights_def)

lemma consultations_instantiate [simp]:
  "consultations (fst (instantiate E item md k p c cfg)) = []"
  unfolding instantiate_def
  by (simp add: consultations_seq split: sum.splits)

lemma consultations_check_model_config [simp]:
  "consultations (fst (check_model_config item c)) = []"
  by (simp add: check_model_config_def split: val.splits)

text \<open>
  Which sources lines 143 to 154 consult: the configuration file only when the search of
  \<^verbatim>\<open>train_conf\<close> returned a false value, the whole dictionary only when the search of
  the configuration file did so too.
\<close>

lemma consultations_find_model_config:
  "consultations (fst (find_model_config E item model_dir model_dict model_key)) =
     (case get_val_any (dict_get model_dict ''train_conf'' (VDict [])) model_key (VDict []) of
        Inl e \<Rightarrow> [Search TrainConf]
      | Inr c1 \<Rightarrow>
          if truthy c1 then [Search TrainConf]
          else (case json_load E (json_path item model_dir) of
                  Inl e \<Rightarrow> [Search TrainConf, OpenJson (json_path item model_dir)]
                | Inr conf_dict \<Rightarrow>
                    if truthy (get_val conf_dict model_key (VDict []))
                    then [Search TrainConf, OpenJson (json_path item model_dir), Search ConfigFile]
                    else [Search TrainConf, OpenJson (json_path item model_dir), Search ConfigFile,
                          Search ModelDict]))"
  unfolding find_model_config_def search_train_conf_def search_config_file_def
    search_model_dict_def
  by (simp add: consultations_seq split: sum.splits)

text \<open>
  What lines 143 to 160 return when no collaborator raises: the first of the three search
  results that Python takes as true (the third one otherwise), if it is a non-empty
  mapping, and the configuration error in every other case.
\<close>

lemma check_model_config_result:
  "snd (check_model_config item c)
     = (case c of
          VDict m \<Rightarrow> if m \<noteq> [] then Inr m else Inl (config_error item)
        | _ \<Rightarrow> Inl (config_error item))"
  by (simp add: check_model_config_def split: val.splits)

lemma find_model_config_result:
  "snd (find_model_config E item model_dir model_dict model_key) =
     (case get_val_any (dict_get model_dict ''train_conf'' (VDict [])) model_key (VDict []) of
        Inl e \<Rightarrow> Inl e
      | Inr c1 \<Rightarrow>
          if truthy c1 then snd (check_model_config item c1)
          else (case json_load E (json_path item model_dir) of
                  Inl e \<Rightarrow> Inl e
                | Inr conf_dict \<Rightarrow>
                    if truthy (get_val conf_dict model_key (VDict []))
                    then snd (check_model_config item (get_val conf_dict model_key (VDict [])))
                    else snd (check_model_config item (get_val model_dict model_key (VDict [])))))"
  unfolding find_model_config_def search_train_conf_def search_config_file_def
    search_model_dict_def
  by (simp split: sum.splits)

lemma consultations_state_dict_path:
  assumes "locate E it mmar_dir progress = (t0, Inr (item, model_dir, model_file))"
    and "\<not> endswith model_file ''.ts''"
    and "torch_load E model_file map_location = Inr model_dict"
  shows "consultations
           (fst (load_from_mmar E it mmar_dir progress map_location pretrained False model_key))
       = consultations (fst (find_model_config E item model_dir model_dict model_key))"
proof -
  have "consultations t0 = []"
    using consultations_locate[of E it mmar_dir progress] assms(1) by simp
  then show ?thesis
    using assms unfolding load_from_mmar_def
    by (simp add: consultations_seq split: sum.splits)
qed

lemma example_locate:
  "locate (example_env md conf) (ItemDesc (example_item f)) (Some ''/tmp'') True
   = ([DownloadAndExtract \<lparr>dl_url = ''https://host/m/1/zip'', dl_filepath = ''/tmp/m1.zip'',
          dl_output_dir = ''/tmp/m1'', dl_hash_val = None, dl_hash_type = ''md5'',
          dl_file_type = ''zip'', dl_has_base = False, dl_progress = True\<rparr>,
       Print ([CHR 0x0A] @ ''*** '' @ [CHR 0x22] @ ''m1'' @ [CHR 0x22] @ '' available at /tmp/m1.'')],
      Inr (example_item f, ''/tmp/m1'', path_join ''/tmp/m1'' f))"
  by (simp add: locate_def download_mmar_def resolve_item_def default_mmar_dir_def
      example_env_def example_item_def path_join_def Let_def)

subsection \<open>The claims\<close>

text \<open>
  C1, as the claim states it, fails: with \<^verbatim>\<open>train_conf = {"model": 0}\<close> the search of
  \<^verbatim>\<open>train_conf\<close> finds the model key and returns its value 0, which is not the default
  \<^verbatim>\<open>{}\<close>, and yet the run opens the configuration file and searches the whole
  dictionary, because \<^verbatim>\<open>if not model_config\<close> takes 0 (as it takes \<^verbatim>\<open>{}\<close>) for nothing
  found.
\<close>

theorem load_from_mmar_falsy_train_conf_counterexample:
  "map_of [(''model'', VInt 0)] ''model'' = Some (VInt 0)
   \<and> get_val_any (dict_get [(''train_conf'', VDict [(''model'', VInt 0)])] ''train_conf''
        (VDict [])) ''model'' (VDict []) = Inr (VInt 0)
   \<and> consultations (fst (load_from_mmar
        (example_env [(''train_conf'', VDict [(''model'', VInt 0)])] (Inr []))
        (ItemDesc (example_item ''model.pt'')) (Some ''/tmp'') True None True False ''model''))
     = [Search TrainConf, OpenJson ''/tmp/m1/config_train.json'', Search ConfigFile,
        Search ModelDict]"
  by code_simp

text \<open>
  C1, amended. In a run of \<^verbatim>\<open>load_from_mmar\<close> with \<^verbatim>\<open>weights_only=False\<close> that has
  loaded the dictionary of a model file not ending in \<^verbatim>\<open>.ts\<close>, the configuration
  sources are consulted in this order and to this extent, exactly: the \<^verbatim>\<open>train_conf\<close>
  entry is searched; if (and only if) that search returned a value that Python takes as
  false, the descriptor's JSON configuration file is opened and, once read, searched; if
  (and only if) that search returned a false value too, the whole dictionary is searched.
  The value that is then checked for being a non-empty mapping is the first of the three
  search results that is true, the third one when none is. Whenever the search of
  \<^verbatim>\<open>train_conf\<close> yields a true (non-empty) result, it is the only consultation: no
  configuration file is opened and the whole dictionary is not searched.
\<close>

theorem load_from_mmar_source_priority:
  assumes "locate E it mmar_dir progress = (t0, Inr (item, model_dir, model_file))"
    and "\<not> endswith model_file ''.ts''"
    and "torch_load E model_file map_location = Inr model_dict"
    and "tr = fst (load_from_mmar E it mmar_dir progress map_location pretrained False model_key)"
  shows "consultations tr =
          (case get_val_any (dict_get model_dict ''train_conf'' (VDict [])) model_key (VDict []) of
             Inl e \<Rightarrow> [Search TrainConf]
           | Inr c1 \<Rightarrow>
               if truthy c1 then [Search TrainConf]
               else (case json_load E (json_path item model_dir) of
                       Inl e \<Rightarrow> [Search TrainConf, OpenJson (json_path item model_dir)]
                     | Inr conf_dict \<Rightarrow>
                         if truthy (get_val conf_dict model_key (VDict []))
                         then [Search TrainConf, OpenJson (json_path item model_dir),
                               Search ConfigFile]
                         else [Search TrainConf, OpenJson (json_path item model_dir),
                               Search ConfigFile, Search ModelDict]))
       \<and> snd (find_model_config E item model_dir model_dict model_key) =
          (case get_val_any (dict_get model_dict ''train_conf'' (VDict [])) model_key (VDict []) of
             Inl e \<Rightarrow> Inl e
           | Inr c1 \<Rightarrow>
               if truthy c1 then snd (check_model_config item c1)
               else (case json_load E (json_path item model_dir) of
                       Inl e \<Rightarrow> Inl e
                     | Inr conf_dict \<Rightarrow>
                         if truthy (get_val conf_dict model_key (VDict []))
                         then snd (check_model_config item
                                     (get_val conf_dict model_key (VDict [])))
                         else snd (check_model_config item
                                     (get_val model_dict model_key (VDict [])))))
       \<and> (\<forall>c. get_val_any (dict_get model_dict ''train_conf'' (VDict [])) model_key (VDict [])
                = Inr c \<and> truthy c \<longrightarrow>
            consultations tr = [Search TrainConf]
            \<and> (\<forall>p. OpenJson p \<notin> set tr) \<and> Search ConfigFile \<notin> set tr
            \<and> Search ModelDict \<notin> set tr)"
proof -
  have eq: "consultations tr
      = consultations (fst (find_model_config E item model_dir model_dict model_key))"
    using assms consultations_state_dict_path by simp
  note a = eq[unfolded consultations_find_model_config]
  note b = find_model_config_result[of E item model_dir model_dict model_key]
  have c: "consultations tr = [Search TrainConf]
            \<and> (\<forall>p. OpenJson p \<notin> set tr) \<and> Search ConfigFile \<notin> set tr
            \<and> Search ModelDict \<notin> set tr"
    if h: "get_val_any (dict_get model_dict ''train_conf'' (VDict [])) model_key (VDict [])
             = Inr c \<and> truthy c" for c
  proof -
    have one: "consultations tr = [Search TrainConf]"
      unfolding a using h by simp
    have "e \<notin> set tr" if "is_consultation e" "e \<noteq> Search TrainConf" for e
      using consultation_mem[of e tr] that one by auto
    then show ?thesis using one by simp
  qed
  from a b c show ?thesis by blast
qed

text \<open>
  The witness: \<^verbatim>\<open>train_conf\<close> holds the model key two levels down, and reading the
  configuration file would raise an error; the run consults \<^verbatim>\<open>train_conf\<close> only and
  returns a model instance.
\<close>

theorem load_from_mmar_source_priority_witness:
  "consultations (fst (load_from_mmar
      (example_env example_train_conf (Inl (ExternalError ''FileNotFoundError'')))
      (ItemDesc (example_item ''model.pt'')) (Some ''/tmp'') True None True False ''model''))
     = [Search TrainConf]
   \<and> OpenJson ''/tmp/m1/config_train.json'' \<notin> set (fst (load_from_mmar
      (example_env example_train_conf (Inl (ExternalError ''FileNotFoundError'')))
      (ItemDesc (example_item ''model.pt'')) (Some ''/tmp'') True None True False ''model''))
   \<and> Search ModelDict \<notin> set (fst (load_from_mmar
      (example_env example_train_conf (Inl (ExternalError ''FileNotFoundError'')))
      (ItemDesc (example_item ''model.pt'')) (Some ''/tmp'') True None True False ''model''))"
proof -
  let ?E = "example_env example_train_conf (Inl (ExternalError ''FileNotFoundError''))"
  have h1: "locate ?E (ItemDesc (example_item ''model.pt'')) (Some ''/tmp'') True
      = ([DownloadAndExtract \<lparr>dl_url = ''https://host/m/1/zip'', dl_filepath = ''/tmp/m1.zip'',
          dl_output_dir = ''/tmp/m1'', dl_hash_val = None, dl_hash_type = ''md5'',
          dl_file_type = ''zip'', dl_has_base = False, dl_progress = True\<rparr>,
          Print ([CHR 0x0A] @ ''*** '' @ [CHR 0x22] @ ''m1'' @ [CHR 0x22]
                 @ '' available at /tmp/m1.'')],
         Inr (example_item ''model.pt'', ''/tmp/m1'', ''/tmp/m1/model.pt''))"
    by (simp add: example_locate path_join_def)
  have h2: "\<not> endswith ''/tmp/m1/model.pt'' ''.ts''"
    by (simp add: endswith_def)
  have h3: "torch_load ?E ''/tmp/m1/model.pt'' None = Inr example_train_conf"
    by (simp add: example_env_def)
  have h4: "get_val_any (dict_get example_train_conf ''train_conf'' (VDict [])) ''model'' (VDict [])
        = Inr (VDict [(''name'', VStr ''UNet'')])
      \<and> truthy (VDict [(''name'', VStr ''UNet'')])"
    by (simp add: example_train_conf_def dict_get_def)
  from load_from_mmar_source_priority[OF h1 h2 h3 refl, of True "''model''"] h4
  show ?thesis by blast
qed

text \<open>
  C5. With \<^verbatim>\<open>weights_only=True\<close> and a model file not ending in \<^verbatim>\<open>.ts\<close>, the run ends
  right after \<^verbatim>\<open>torch.load\<close>: it returns the entry of the loaded dictionary under the
  model key when there is one and the whole dictionary otherwise, and after the events
  of locating the archive its only event is the call of \<^verbatim>\<open>torch.load\<close> (no search of a
  configuration source, no class lookup or import, no construction, no loading of a state
  dictionary).
\<close>

theorem load_from_mmar_weights_only:
  assumes "locate E it mmar_dir progress = (t0, Inr (item, model_dir, model_file))"
    and "\<not> endswith model_file ''.ts''"
    and "torch_load E model_file map_location = Inr model_dict"
  shows "load_from_mmar E it mmar_dir progress map_location pretrained True model_key
       = (t0 @ [TorchLoad model_file map_location],
          Inr (Weights (case map_of model_dict model_key of
                          Some w \<Rightarrow> w
                        | None \<Rightarrow> VDict model_dict)))"
  using assms by (simp add: load_from_mmar_def dict_get_def)

theorem load_from_mmar_weights_only_witness:
  "snd (load_from_mmar (example_env [(''model'', VDict [(''w'', VObj 1)])] (Inr []))
      (ItemDesc (example_item ''model.pt'')) (Some ''/tmp'') True None True True ''model'')
     = Inr (Weights (VDict [(''w'', VObj 1)]))
   \<and> snd (load_from_mmar (example_env [(''w'', VObj 1)] (Inr []))
      (ItemDesc (example_item ''model.pt'')) (Some ''/tmp'') True None True True ''model'')
     = Inr (Weights (VDict [(''w'', VObj 1)]))"
proof -
  have h2: "\<not> endswith (path_join ''/tmp/m1'' ''model.pt'') ''.ts''"
    by (simp add: endswith_def path_join_def)
  have h3: "torch_load (example_env md (Inr [])) (path_join ''/tmp/m1'' ''model.pt'') None = Inr md"
    for md by (simp add: example_env_def)
  from load_from_mmar_weights_only
    [where pretrained = True and model_key = "''model''",
     OF example_locate[of "[(''model'', VDict [(''w'', VObj 1)])]" "Inr []" "''model.pt''"] h2 h3]
    load_from_mmar_weights_only
    [where pretrained = True and model_key = "''model''",
     OF example_locate[of "[(''w'', VObj 1)]" "Inr []" "''model.pt''"] h2 h3]
  show ?thesis by simp
qed

text \<open>
  C8. When the model file ends in \<^verbatim>\<open>.ts\<close>, the run returns what \<^verbatim>\<open>torch.jit.load\<close>
  yields for that file, whatever \<^verbatim>\<open>pretrained\<close> and \<^verbatim>\<open>weights_only\<close> are: the two
  options only add a warning each (\<^verbatim>\<open>pretrained=False\<close>, \<^verbatim>\<open>weights_only=True\<close>) to the
  events before the call and never turn the result into an error.
\<close>

theorem load_from_mmar_script_module:
  assumes "locate E it mmar_dir progress = (t0, Inr (item, model_dir, model_file))"
    and "endswith model_file ''.ts''"
  shows "load_from_mmar E it mmar_dir progress map_location pretrained weights_only model_key
       = (t0
          @ (if \<not> pretrained
             then [Warn ''Loading a ScriptModule, 'pretrained' option ignored.''] else [])
          @ (if weights_only
             then [Warn ''Loading a ScriptModule, 'weights_only' option ignored.''] else [])
          @ [TorchJitLoad model_file map_location],
          case torch_jit_load E model_file map_location of
            Inl e \<Rightarrow> Inl e
          | Inr m \<Rightarrow> Inr (ScriptModule m))"
  using assms by (simp add: load_from_mmar_def load_script_module_def)

theorem load_from_mmar_script_module_witness:
  "snd (load_from_mmar (example_env [] (Inr []))
      (ItemDesc (example_item ''model.ts'')) (Some ''/tmp'') True None False True ''model'')
     = Inr (ScriptModule 7)
   \<and> Warn ''Loading a ScriptModule, 'pretrained' option ignored.''
       \<in> set (fst (load_from_mmar (example_env [] (Inr []))
      (ItemDesc (example_item ''model.ts'')) (Some ''/tmp'') True None False True ''model''))
   \<and> Warn ''Loading a ScriptModule, 'weights_only' option ignored.''
       \<in> set (fst (load_from_mmar (example_env [] (Inr []))
      (ItemDesc (example_item ''model.ts'')) (Some ''/tmp'') True None False True ''model''))"
proof -
  have h2: "endswith (path_join ''/tmp/m1'' ''model.ts'') ''.ts''"
    by (simp add: endswith_def path_join_def)
  have h3: "torch_jit_load (example_env [] (Inr [])) f None = Inr 7" for f
    by (simp add: example_env_def)
  from load_from_mmar_script_module
    [where map_location = None and pretrained = False and weights_only = True
       and model_key = "''model''", OF example_locate[of "[]" "Inr []" "''model.ts''"] h2] h3
  show ?thesis by simp
qed

text \<open>
  C7 at a descriptor without a \<^verbatim>\<open>config_file\<close> entry (the first one of the table),
  with an empty weights dictionary and an empty configuration file: the run opens
  \<^verbatim>\<open>config_train.json\<close> in the model directory, finds nothing in any source, and raises
  the configuration error, whose message names the model file but gives \<^verbatim>\<open>None\<close> as
  the configuration file.
\<close>

theorem load_from_mmar_config_error_default_path:
  "OpenJson ''/data/mmars/clara_pt_prostate_mri_segmentation_1/config_train.json''
     \<in> set (fst (load_from_mmar (example_env [] (Inr [])) (ItemIdx (IdxInt 0))
                (Some ''/data/mmars'') True None True False ''model''))
   \<and> snd (load_from_mmar (example_env [] (Inr [])) (ItemIdx (IdxInt 0))
                (Some ''/data/mmars'') True None True False ''model'')
     = Inl (ValueError
         ''Could not load model config dictionary from config: None, or from model file: models/model.pt.'')"
  by code_simp

end
